theory Spec2Isabelle
  imports Main
begin

section \<open>Data model\<close>

text \<open>
  The breaker states of package circuitbreaker (\<^verbatim>\<open>type State int\<close> with the three
  constants \<^verbatim>\<open>Closed\<close>, \<^verbatim>\<open>Open\<close>, \<^verbatim>\<open>HalfOpen\<close>).
\<close>

datatype State = Closed | Open | HalfOpen

text \<open>
  Error values. \<^verbatim>\<open>ErrOpen\<close> and \<^verbatim>\<open>ErrFull\<close> are the two sentinels of the packages;
  \<^verbatim>\<open>ServerError n\<close> is \<^verbatim>\<open>fmt.Errorf("server error: %d", n)\<close> of the call adapter;
  \<^verbatim>\<open>OpError\<close> stands for any other error an operation returns. A Go \<^verbatim>\<open>error\<close> result is
  an \<open>error option\<close>, \<open>None\<close> being \<^verbatim>\<open>nil\<close>.
\<close>

datatype error = ErrOpen | ErrFull | ServerError int | OpError string

text \<open>
  \<^verbatim>\<open>struct CircuitBreaker\<close>. Instants (\<^verbatim>\<open>time.Time\<close>) and durations
  (\<^verbatim>\<open>time.Duration\<close>) are integers counting nanoseconds; the slice \<^verbatim>\<open>failureTimes\<close>
  is a list, \<^verbatim>\<open>nil\<close> being the empty list. The mutex is not part of the model: one
  \<^verbatim>\<open>Execute\<close> is followed from its first line to its return, and whatever other
  goroutines do while the operation runs outside the lock is part of what the operation does
  to the world. The callback \<^verbatim>\<open>onStateChange\<close> is opaque: the field says whether one is
  registered, and each of its calls is written to the trace \<open>notified\<close> of the world.
\<close>

record CircuitBreaker =
  maxFailures :: int
  window :: int
  timeout :: int
  trialRequests :: int
  trialDuration :: int
  failureTimes :: "int list"
  trialCount :: int
  trialStart :: int
  state :: State
  onStateChange :: bool

text \<open>
  The semaphore of the bulkhead, \<^verbatim>\<open>make(chan struct{}, n)\<close>: a buffered channel is its
  capacity and the number of elements in its buffer. The channel is private to package
  bulkhead and its only receive is the deferred one of \<^verbatim>\<open>Execute\<close>, which runs after a
  send of the same call has gone through; so no goroutine is ever parked on it as a receiver
  and a send can proceed exactly when the buffer has room.
\<close>

record chan =
  cap :: nat
  len :: nat

record Bulkhead =
  sem :: chan

record Builder =
  limit :: int

text \<open>\<^verbatim>\<open>fasthttp.Response\<close>, of which the adapter reads the status code only.\<close>

record Response =
  statusCode :: int

text \<open>
  The world an operation runs in: the clock read by \<^verbatim>\<open>time.Now\<close>, the breaker and the
  bulkhead, the calls of \<^verbatim>\<open>time.AfterFunc\<close> made so far (the instant of the call and the
  duration given), the calls of the listener so far (the state each one received), and the
  response variable the adapter's closure writes.
\<close>

record world =
  clock :: int
  cb :: CircuitBreaker
  bh :: Bulkhead
  timers :: "(int \<times> int) list"
  notified :: "State list"
  resp :: Response

text \<open>
  A Go \<^verbatim>\<open>func() error\<close>: it changes the world and returns an error or \<^verbatim>\<open>nil\<close>.
  \<open>None\<close> is a call that does not return (it blocks forever).
\<close>

type_synonym func = "world \<Rightarrow> (error option \<times> world) option"

text \<open>
  \<^verbatim>\<open>struct Client\<close>: the fields say whether the pointers \<^verbatim>\<open>CB\<close> and \<^verbatim>\<open>BH\<close> are set
  (\<open>False\<close> is \<^verbatim>\<open>nil\<close>); when set they point to the breaker and the bulkhead of the world.
\<close>

record Client =
  CB :: bool
  BH :: bool

section \<open>Machine arithmetic and time\<close>

text \<open>Go's \<^verbatim>\<open>int\<close> is 64 bits wide and \<^verbatim>\<open>++\<close> wraps around.\<close>

definition wrap64 :: "int \<Rightarrow> int" where
  "wrap64 x = (x + 2 ^ 63) mod 2 ^ 64 - 2 ^ 63"

text \<open>
  \<^verbatim>\<open>time.Since(t)\<close>: the duration from \<open>t\<close> to now, which the time package saturates
  at the least and greatest \<^verbatim>\<open>Duration\<close>.
\<close>

definition Since :: "int \<Rightarrow> world \<Rightarrow> int" where
  "Since t w = max (- (2 ^ 63)) (min (2 ^ 63 - 1) (clock w - t))"

section \<open>Circuit breaker\<close>

definition setState :: "State \<Rightarrow> world \<Rightarrow> world" where
  "setState s w =
     (if state (cb w) \<noteq> s
      then (let w1 = w\<lparr>cb := (cb w)\<lparr>state := s\<rparr>\<rparr>
            in if onStateChange (cb w1) then w1\<lparr>notified := notified w1 @ [s]\<rparr> else w1)
      else w)"

text \<open>
  The loop of \<^verbatim>\<open>recordFailure\<close>: from index \<open>i\<close>, the first index whose timestamp is
  after the cutoff, or the length of the slice when there is none.
\<close>

function firstAfter :: "int \<Rightarrow> int list \<Rightarrow> nat \<Rightarrow> nat" where
  "firstAfter cutoff ts i =
     (if i < length ts
      then (if ts ! i > cutoff then i else firstAfter cutoff ts (i + 1))
      else i)"
  by pat_completeness auto
termination
  by (relation "measure (\<lambda>(cutoff, ts, i). length ts - i)") auto

declare firstAfter.simps [simp del]

definition recordFailure :: "world \<Rightarrow> world" where
  "recordFailure w =
     (let now = clock w;
          ft = failureTimes (cb w) @ [now]
      in if window (cb w) > 0
         then (let cutoff = now - window (cb w);
                   i = firstAfter cutoff ft 0
               in if i > 0
                  then w\<lparr>cb := (cb w)\<lparr>failureTimes := drop i ft\<rparr>\<rparr>
                  else w\<lparr>cb := (cb w)\<lparr>failureTimes := ft\<rparr>\<rparr>)
         else w\<lparr>cb := (cb w)\<lparr>failureTimes := ft\<rparr>\<rparr>)"

definition resetFailures :: "world \<Rightarrow> world" where
  "resetFailures w = w\<lparr>cb := (cb w)\<lparr>failureTimes := [], trialCount := 0\<rparr>\<rparr>"

definition startOpenTimer :: "world \<Rightarrow> world" where
  "startOpenTimer w = w\<lparr>timers := timers w @ [(clock w, timeout (cb w))]\<rparr>"

text \<open>
  The callback \<^verbatim>\<open>startOpenTimer\<close> hands to \<^verbatim>\<open>time.AfterFunc\<close>, run by the runtime once
  the duration has passed.
\<close>

definition openTimerFired :: "world \<Rightarrow> world" where
  "openTimerFired w =
     (let w1 = setState HalfOpen w
      in w1\<lparr>cb := (cb w1)\<lparr>trialStart := clock w1, trialCount := 0\<rparr>\<rparr>)"

text \<open>
  \<^verbatim>\<open>CircuitBreaker.Execute\<close>. The state is read once, before the operation; the switch
  after the operation is on that reading.
\<close>

definition cb_Execute :: "func \<Rightarrow> func" where
  "cb_Execute fn w =
     (let st = state (cb w)
      in if st = HalfOpen \<and> trialDuration (cb w) > 0
            \<and> Since (trialStart (cb w)) w > trialDuration (cb w)
         then Some (Some ErrOpen, startOpenTimer (setState Open w))
         else if st = Open then Some (Some ErrOpen, w)
         else (case fn w of
                 None \<Rightarrow> None
               | Some (err, w1) \<Rightarrow>
                   (case st of
                      Closed \<Rightarrow>
                        if err \<noteq> None
                        then (let w2 = recordFailure w1
                              in if int (length (failureTimes (cb w2))) \<ge> maxFailures (cb w2)
                                 then Some (err, startOpenTimer (setState Open (resetFailures w2)))
                                 else Some (err, w2))
                        else Some (None, resetFailures w1)
                    | HalfOpen \<Rightarrow>
                        (let w2 = w1\<lparr>cb := (cb w1)\<lparr>trialCount := wrap64 (trialCount (cb w1) + 1)\<rparr>\<rparr>
                         in if err \<noteq> None
                            then Some (err, startOpenTimer (setState Open w2))
                            else if trialRequests (cb w2) = 0
                                    \<or> trialCount (cb w2) \<ge> trialRequests (cb w2)
                                 then Some (err, resetFailures (setState Closed w2))
                                 else Some (err, w2))
                    | Open \<Rightarrow> Some (err, w1))))"

section \<open>Bulkhead\<close>

definition NewBuilder :: Builder where
  "NewBuilder = \<lparr>limit = 1\<rparr>"

definition Limit :: "int \<Rightarrow> Builder \<Rightarrow> Builder" where
  "Limit n b = b\<lparr>limit := n\<rparr>"

text \<open>\<^verbatim>\<open>Builder.Build\<close>; \<^verbatim>\<open>make\<close> panics on a negative size, which is \<open>None\<close>.\<close>

definition Build :: "Builder \<Rightarrow> Bulkhead option" where
  "Build b =
     (if limit b < 0 then None
      else Some \<lparr>sem = \<lparr>cap = nat (limit b), len = 0\<rparr>\<rparr>)"

text \<open>
  \<^verbatim>\<open>Bulkhead.Execute\<close>. The \<^verbatim>\<open>select\<close> takes the send when the buffer has room and
  the default branch otherwise. The deferred receive takes one element back; on an empty
  buffer it would wait forever.
\<close>

definition bh_Execute :: "func \<Rightarrow> func" where
  "bh_Execute fn w =
     (let c = sem (bh w)
      in if len c < cap c
         then (case fn (w\<lparr>bh := (bh w)\<lparr>sem := c\<lparr>len := len c + 1\<rparr>\<rparr>\<rparr>) of
                 None \<Rightarrow> None
               | Some (r, w1) \<Rightarrow>
                   (let c1 = sem (bh w1)
                    in if len c1 > 0
                       then Some (r, w1\<lparr>bh := (bh w1)\<lparr>sem := c1\<lparr>len := len c1 - 1\<rparr>\<rparr>\<rparr>)
                       else None))
         else Some (Some ErrFull, w))"

section \<open>Client\<close>

definition StatusInternalServerError :: int where
  "StatusInternalServerError = 500"

text \<open>
  The closure \<^verbatim>\<open>callFn\<close> of \<^verbatim>\<open>Client.Call\<close>. The transport (\<^verbatim>\<open>c.HTTP.DoDeadline\<close> and
  \<^verbatim>\<open>c.HTTP.Do\<close>) is a parameter: each is a call that writes the response variable and
  returns an error or \<^verbatim>\<open>nil\<close>. \<open>deadline\<close> is \<^verbatim>\<open>ctx.Deadline()\<close>, \<open>None\<close> when the
  context has none.
\<close>

definition callFn :: "func \<Rightarrow> func \<Rightarrow> int option \<Rightarrow> func" where
  "callFn DoDeadline Do deadline w =
     (case (if deadline \<noteq> None then DoDeadline w else Do w) of
        None \<Rightarrow> None
      | Some (err, w1) \<Rightarrow>
          if err \<noteq> None then Some (err, w1)
          else if statusCode (resp w1) \<ge> StatusInternalServerError
               then Some (Some (ServerError (statusCode (resp w1))), w1)
               else Some (None, w1))"

text \<open>\<^verbatim>\<open>Client.execute\<close>.\<close>

definition execute :: "Client \<Rightarrow> func \<Rightarrow> func" where
  "execute c fn =
     (if CB c \<and> BH c then cb_Execute (\<lambda>w. bh_Execute fn w)
      else if CB c then cb_Execute fn
      else if BH c then bh_Execute fn
      else fn)"

section \<open>Sample configurations\<close>

text \<open>
  The client of the example program, as \<^verbatim>\<open>httpclient.New\<close> builds it: a breaker with
  \<^verbatim>\<open>MaxFailures 2\<close>, \<^verbatim>\<open>Window 500ms\<close>, \<^verbatim>\<open>Timeout 2s\<close>, \<^verbatim>\<open>TrialRequests 2\<close>,
  \<^verbatim>\<open>TrialDuration 2s\<close> and a listener, and a bulkhead with \<^verbatim>\<open>Limit 1\<close>.
\<close>

definition demoBreaker :: CircuitBreaker where
  "demoBreaker =
     \<lparr>maxFailures = 2, window = 500000000, timeout = 2000000000, trialRequests = 2,
      trialDuration = 2000000000, failureTimes = [], trialCount = 0, trialStart = 0,
      state = Closed, onStateChange = True\<rparr>"

definition demoClient :: Client where
  "demoClient = \<lparr>CB = True, BH = True\<rparr>"

definition demoWorld :: world where
  "demoWorld =
     \<lparr>clock = 0, cb = demoBreaker, bh = \<lparr>sem = \<lparr>cap = 1, len = 0\<rparr>\<rparr>, timers = [],
      notified = [], resp = \<lparr>statusCode = 0\<rparr>\<rparr>"

text \<open>
  The same world one second later with the breaker tripped (the failure record cleared, the
  timer armed, the listener told), and three seconds later with the timer's callback run.
\<close>

definition trippedWorld :: world where
  "trippedWorld =
     demoWorld\<lparr>clock := 1000000000, cb := demoBreaker\<lparr>state := Open\<rparr>,
       timers := [(1000000000, 2000000000)], notified := [Open]\<rparr>"

definition trialWorld :: world where
  "trialWorld = openTimerFired (trippedWorld\<lparr>clock := 3000000000\<rparr>)"

text \<open>An operation that takes \<open>d\<close> nanoseconds and returns \<open>r\<close>.\<close>

definition opReturning :: "error option \<Rightarrow> int \<Rightarrow> func" where
  "opReturning r d w = Some (r, w\<lparr>clock := clock w + d\<rparr>)"

text \<open>A transport whose round trip takes \<open>d\<close> nanoseconds and answers with status \<open>n\<close>.\<close>

definition answering :: "int \<Rightarrow> int \<Rightarrow> func" where
  "answering n d w = Some (None, w\<lparr>clock := clock w + d, resp := \<lparr>statusCode = n\<rparr>\<rparr>)"

text \<open>
  The failure record as the specification words the pruning: timestamps older than
  \<open>now - window\<close> are dropped, one exactly at the boundary stays.
\<close>

definition spec_withinWindow :: "int \<Rightarrow> int \<Rightarrow> int list \<Rightarrow> int list" where
  "spec_withinWindow now win ft = (if win > 0 then filter (\<lambda>t. now - win \<le> t) ft else ft)"

section \<open>Auxiliary facts\<close>

text \<open>The index loop of \<^verbatim>\<open>recordFailure\<close> finds the end of the leading run of
  timestamps that are not after the cutoff.\<close>

lemma firstAfter_drop:
  "i \<le> length ts \<Longrightarrow>
     drop (firstAfter cutoff ts i) ts = dropWhile (\<lambda>t. t \<le> cutoff) (drop i ts)"
proof (induction cutoff ts i rule: firstAfter.induct)
  case (1 cutoff ts i)
  show ?case
  proof (cases "i < length ts")
    case True
    then have d: "drop i ts = ts ! i # drop (Suc i) ts"
      by (simp add: Cons_nth_drop_Suc)
    show ?thesis
    proof (cases "ts ! i > cutoff")
      case True
      with \<open>i < length ts\<close> d show ?thesis
        by (simp add: firstAfter.simps [of cutoff ts i])
    next
      case False
      with \<open>i < length ts\<close> have "drop (firstAfter cutoff ts (i + 1)) ts
          = dropWhile (\<lambda>t. t \<le> cutoff) (drop (i + 1) ts)"
        using "1.IH" by simp
      with False \<open>i < length ts\<close> d show ?thesis
        by (simp add: firstAfter.simps [of cutoff ts i])
    qed
  next
    case False
    then have "firstAfter cutoff ts i = i"
      by (subst firstAfter.simps) simp
    with False show ?thesis by simp
  qed
qed

lemma recordFailure_eq:
  "recordFailure w =
     w\<lparr>cb := (cb w)\<lparr>failureTimes :=
        (if window (cb w) > 0
         then dropWhile (\<lambda>t. t \<le> clock w - window (cb w)) (failureTimes (cb w) @ [clock w])
         else failureTimes (cb w) @ [clock w])\<rparr>\<rparr>"
proof -
  let ?ft = "failureTimes (cb w) @ [clock w]"
  let ?i = "firstAfter (clock w - window (cb w)) ?ft 0"
  have d: "drop ?i ?ft = dropWhile (\<lambda>t. t \<le> clock w - window (cb w)) ?ft"
    using firstAfter_drop [of 0 ?ft "clock w - window (cb w)"] by simp
  show ?thesis
  proof (cases "?i > 0")
    case True
    with d show ?thesis by (simp add: recordFailure_def Let_def)
  next
    case False
    with d have "dropWhile (\<lambda>t. t \<le> clock w - window (cb w)) ?ft = ?ft" by simp
    with False show ?thesis by (simp add: recordFailure_def Let_def)
  qed
qed

text \<open>On a record in time order the leading run is all there is to drop.\<close>

lemma dropWhile_sorted_filter:
  "sorted ts \<Longrightarrow> dropWhile (\<lambda>t. t \<le> c) ts = filter (\<lambda>t. c < t) (ts :: int list)"
proof (induction ts)
  case Nil
  then show ?case by simp
next
  case (Cons a ts)
  show ?case
  proof (cases "a \<le> c")
    case True
    with Cons show ?thesis by simp
  next
    case False
    with Cons.prems have "\<forall>x\<in>set ts. c < x" by auto
    then have "filter (\<lambda>t. c < t) ts = ts" by (simp add: filter_id_conv)
    with False show ?thesis by simp
  qed
qed

lemma recordFailure_sorted:
  assumes "sorted (failureTimes (cb w))" and "0 < window (cb w)"
  shows "failureTimes (cb (recordFailure w))
         = filter (\<lambda>t. clock w - window (cb w) < t) (failureTimes (cb w)) @ [clock w]"
proof -
  have "dropWhile (\<lambda>t. t \<le> clock w - window (cb w)) (failureTimes (cb w) @ [clock w])
        = dropWhile (\<lambda>t. t \<le> clock w - window (cb w)) (failureTimes (cb w)) @ [clock w]"
    using assms(2) by (simp add: dropWhile_append3)
  with assms show ?thesis
    by (simp add: recordFailure_eq dropWhile_sorted_filter)
qed

text \<open>
  \<^verbatim>\<open>recordFailure\<close> and \<^verbatim>\<open>resetFailures\<close> are the only writers of the failure record.
  With a clock that does not run backwards they keep it in time order and not ahead of the
  clock, so the records the breaker builds are the ones \<open>recordFailure_sorted\<close> speaks of.
\<close>

lemma recordFailure_keeps_order:
  assumes "sorted (failureTimes (cb w))" and "\<forall>t \<in> set (failureTimes (cb w)). t \<le> clock w"
  shows "sorted (failureTimes (cb (recordFailure w)))
         \<and> (\<forall>t \<in> set (failureTimes (cb (recordFailure w))). t \<le> clock w)"
proof -
  let ?ft = "failureTimes (cb w) @ [clock w]"
  from assms have s: "sorted ?ft" by (simp add: sorted_append)
  from assms have b: "\<forall>t \<in> set ?ft. t \<le> clock w" by simp
  let ?kept = "dropWhile (\<lambda>t. t \<le> clock w - window (cb w)) ?ft"
  from s have "sorted ?kept" by (rule sorted_dropWhile)
  moreover from b have "\<forall>t \<in> set ?kept. t \<le> clock w"
    by (meson set_dropWhileD)
  ultimately show ?thesis using s b by (simp add: recordFailure_eq)
qed

lemma resetFailures_keeps_order:
  "sorted (failureTimes (cb (resetFailures w)))
   \<and> (\<forall>t \<in> set (failureTimes (cb (resetFailures w))). t \<le> clock w)"
  by (simp add: resetFailures_def)

text \<open>
  The record is never empty after \<^verbatim>\<open>recordFailure\<close>: the timestamp just appended is
  after the cutoff and stays.
\<close>

lemma recordFailure_last:
  "failureTimes (cb (recordFailure w)) \<noteq> []
   \<and> last (failureTimes (cb (recordFailure w))) = clock w"
proof (cases "0 < window (cb w)")
  case True
  then have "dropWhile (\<lambda>t. t \<le> clock w - window (cb w)) (failureTimes (cb w) @ [clock w])
        = dropWhile (\<lambda>t. t \<le> clock w - window (cb w)) (failureTimes (cb w)) @ [clock w]"
    by (simp add: dropWhile_append3)
  with True show ?thesis by (simp add: recordFailure_eq)
next
  case False
  then show ?thesis by (simp add: recordFailure_eq)
qed

text \<open>\<^verbatim>\<open>Execute\<close> returns whenever the operation does, and at once when it does not run
  the operation.\<close>

lemma cb_Execute_returns:
  assumes "fn w \<noteq> None"
  shows "cb_Execute fn w \<noteq> None"
proof -
  from assms obtain err w1 where "fn w = Some (err, w1)" by auto
  then show ?thesis
    by (cases "state (cb w)") (auto simp: cb_Execute_def Let_def)
qed

lemma setState_eq:
  "setState s w =
     w\<lparr>cb := (cb w)\<lparr>state := s\<rparr>,
       notified := (if onStateChange (cb w) \<and> state (cb w) \<noteq> s
                    then notified w @ [s] else notified w)\<rparr>"
  by (cases "state (cb w) = s") (auto simp: setState_def Let_def)

lemma wrap64_id: "- (2 ^ 63) \<le> x \<Longrightarrow> x < 2 ^ 63 \<Longrightarrow> wrap64 x = x"
  by (simp add: wrap64_def)

lemma Since_exact:
  "- (2 ^ 63) \<le> clock w - t \<Longrightarrow> clock w - t < 2 ^ 63 \<Longrightarrow> Since t w = clock w - t"
  by (simp add: Since_def)

text \<open>
  What \<^verbatim>\<open>Execute\<close> does with a failure of an operation it started in the Closed state.
\<close>

lemma closed_failure:
  assumes "state (cb w) = Closed" and "fn w = Some (Some e, w1)"
  shows "cb_Execute fn w = Some (Some e,
     (let b = cb w1; now = clock w1; ft = failureTimes b @ [now];
          kept = (if window b > 0 then dropWhile (\<lambda>t. t \<le> now - window b) ft else ft)
      in if maxFailures b \<le> int (length kept)
         then w1\<lparr>cb := b\<lparr>failureTimes := [], trialCount := 0, state := Open\<rparr>,
                 timers := timers w1 @ [(now, timeout b)],
                 notified := (if onStateChange b \<and> state b \<noteq> Open
                              then notified w1 @ [Open] else notified w1)\<rparr>
         else w1\<lparr>cb := b\<lparr>failureTimes := kept\<rparr>\<rparr>))"
  using assms
  by (simp add: cb_Execute_def Let_def recordFailure_eq setState_eq resetFailures_def
      startOpenTimer_def)

text \<open>
  An operation that returns with the bulkhead as it found it (one that leaves the semaphore
  alone, or uses it through \<^verbatim>\<open>Execute\<close> only) gets the bulkhead back as it was: each
  slot claimed is given back once.
\<close>

lemma bh_Execute_balanced:
  assumes "\<And>v r v1. fn v = Some (r, v1) \<Longrightarrow> bh v1 = bh v"
    and "bh_Execute fn w = Some (r, w')"
  shows "bh w' = bh w"
proof (cases "len (sem (bh w)) < cap (sem (bh w))")
  case True
  let ?v = "w\<lparr>bh := (bh w)\<lparr>sem := (sem (bh w))\<lparr>len := len (sem (bh w)) + 1\<rparr>\<rparr>\<rparr>"
  from True assms(2) obtain w1 where f: "fn ?v = Some (r, w1)"
    by (auto simp: bh_Execute_def Let_def split: option.splits if_splits)
  then have b: "bh w1 = bh ?v" by (rule assms(1))
  with True assms(2) f show ?thesis
    by (auto simp: bh_Execute_def Let_def)
next
  case False
  with assms(2) show ?thesis by (simp add: bh_Execute_def Let_def)
qed

text \<open>
  While an operation runs under a bulkhead with one free slot, the slot is taken: a second
  \<^verbatim>\<open>Execute\<close> from inside the operation is turned away.
\<close>

lemma bh_Execute_nested:
  assumes "cap (sem (bh w)) = len (sem (bh w)) + 1"
  shows "bh_Execute (bh_Execute fn) w = Some (Some ErrFull, w)"
  using assms by (simp add: bh_Execute_def Let_def)

text \<open>
  Over one \<^verbatim>\<open>Execute\<close> the listener is called at most once, and exactly when the state
  after the call differs from the state the call found (\<open>v\<close> is the world the breaker
  works on: the world of the call when the operation is not run, the world the operation
  left otherwise).
\<close>

lemma Execute_notifies_once:
  assumes "cb_Execute fn w = Some (r, w')"
  shows "\<exists>v. (v = w \<or> (\<exists>r0. fn w = Some (r0, v)))
           \<and> notified w' = (if onStateChange (cb v) \<and> state (cb w') \<noteq> state (cb v)
                            then notified v @ [state (cb w')] else notified v)"
proof (cases "state (cb w) = HalfOpen \<and> trialDuration (cb w) > 0
              \<and> Since (trialStart (cb w)) w > trialDuration (cb w)")
  case True
  with assms have "w' = startOpenTimer (setState Open w)"
    by (simp add: cb_Execute_def Let_def)
  then have "notified w' = (if onStateChange (cb w) \<and> state (cb w') \<noteq> state (cb w)
                            then notified w @ [state (cb w')] else notified w)"
    using True by (simp add: setState_eq startOpenTimer_def)
  then show ?thesis by blast
next
  case notExpired: False
  show ?thesis
  proof (cases "state (cb w) = Open")
    case True
    with assms notExpired have "w' = w" by (simp add: cb_Execute_def Let_def)
    then show ?thesis by auto
  next
    case False
    with assms notExpired obtain r0 v where f: "fn w = Some (r0, v)"
      by (auto simp: cb_Execute_def Let_def split: option.splits)
    have "notified w' = (if onStateChange (cb v) \<and> state (cb w') \<noteq> state (cb v)
                         then notified v @ [state (cb w')] else notified v)"
    proof (cases "state (cb w)")
      case Closed
      with assms notExpired f show ?thesis
        by (auto simp: cb_Execute_def Let_def recordFailure_eq setState_eq resetFailures_def
            startOpenTimer_def split: if_splits)
    next
      case Open
      with False show ?thesis by simp
    next
      case HalfOpen
      with assms notExpired f show ?thesis
        by (auto simp: cb_Execute_def Let_def setState_eq resetFailures_def
            startOpenTimer_def split: if_splits)
    qed
    with f show ?thesis by blast
  qed
qed

lemma trialWorld_eq:
  "trialWorld =
     demoWorld\<lparr>clock := 3000000000,
       cb := demoBreaker\<lparr>state := HalfOpen, trialStart := 3000000000\<rparr>,
       timers := [(1000000000, 2000000000)], notified := [Open, HalfOpen]\<rparr>"
  by (simp add: trialWorld_def openTimerFired_def trippedWorld_def setState_eq demoWorld_def
      demoBreaker_def Let_def)

section \<open>Circuit breaker: the Open state\<close>

text \<open>
  Claim C2. A breaker that is Open when \<^verbatim>\<open>Execute\<close> starts returns \<^verbatim>\<open>ErrOpen\<close> at
  once. The operation is not called, whatever it is (the result does not depend on it, and
  holds for an operation that would never return), and the world after the call is the
  world before it: no failure is recorded and no field of the breaker changes.
\<close>

theorem Execute_open_fast_fail:
  "state (cb w) = Open \<Longrightarrow> cb_Execute fn w = Some (Some ErrOpen, w)"
  by (simp add: cb_Execute_def)

theorem Execute_open_fast_fail_witness:
  "state (cb trippedWorld) = Open
   \<and> cb_Execute (\<lambda>w. None) trippedWorld = Some (Some ErrOpen, trippedWorld)"
  using Execute_open_fast_fail [of trippedWorld "\<lambda>w. None"]
  by (simp add: trippedWorld_def)

section \<open>Circuit breaker: failures in the Closed state\<close>

text \<open>
  The claim about a failure in the Closed state, as it is worded, keeps a timestamp that lies
  exactly at \<open>now - window\<close>. The code does not. With the sample breaker (two failures
  within 500ms trip it), a failure recorded at 1.0s and a second one recorded at exactly
  1.5s: \<^verbatim>\<open>recordFailure\<close> drops the first timestamp, the record has one entry and the
  breaker stays Closed, where the record of the claim has two entries.
\<close>

theorem Execute_closed_failure_boundary_counterexample:
  "cb_Execute (opReturning (Some (OpError ''down'')) 100000000)
      (demoWorld\<lparr>clock := 1400000000, cb := demoBreaker\<lparr>failureTimes := [1000000000]\<rparr>\<rparr>)
   = Some (Some (OpError ''down''),
       demoWorld\<lparr>clock := 1500000000, cb := demoBreaker\<lparr>failureTimes := [1500000000]\<rparr>\<rparr>)
   \<and> spec_withinWindow 1500000000 (window demoBreaker) ([1000000000] @ [1500000000])
       = [1000000000, 1500000000]
   \<and> [1500000000] \<noteq> spec_withinWindow 1500000000 (window demoBreaker)
         ([1000000000] @ [1500000000])"
  by (simp add: cb_Execute_def Let_def recordFailure_eq opReturning_def demoWorld_def
      demoBreaker_def spec_withinWindow_def)

text \<open>
  Claim C1, amended. A breaker is Closed when \<^verbatim>\<open>Execute\<close> starts and the operation
  returns the failure \<open>e\<close>, leaving the world \<open>w1\<close>. Then \<^verbatim>\<open>Execute\<close> returns \<open>e\<close>
  itself. It appends the current time to the failure record and, when \<open>window > 0\<close>, drops
  from the front of the record the timestamps that are not after \<open>now - window\<close>: one
  exactly at the boundary is dropped too. If the length of what is left has reached
  \<open>maxFailures\<close>, the record is cleared (with the trial count), the state becomes Open,
  the listener is told if the state was not Open already, and the timer is armed with
  \<open>timeout\<close>; otherwise only the record changes.
\<close>

theorem Execute_closed_failure:
  assumes "state (cb w) = Closed" and "fn w = Some (Some e, w1)"
  shows "cb_Execute fn w = Some (Some e,
     (let b = cb w1; now = clock w1; ft = failureTimes b @ [now];
          kept = (if window b > 0 then dropWhile (\<lambda>t. t \<le> now - window b) ft else ft)
      in if maxFailures b \<le> int (length kept)
         then w1\<lparr>cb := b\<lparr>failureTimes := [], trialCount := 0, state := Open\<rparr>,
                 timers := timers w1 @ [(now, timeout b)],
                 notified := (if onStateChange b \<and> state b \<noteq> Open
                              then notified w1 @ [Open] else notified w1)\<rparr>
         else w1\<lparr>cb := b\<lparr>failureTimes := kept\<rparr>\<rparr>))"
  using assms by (rule closed_failure)

theorem Execute_closed_failure_witness:
  "state (cb (demoWorld\<lparr>clock := 900000000, cb := demoBreaker\<lparr>failureTimes := [800000000]\<rparr>\<rparr>))
     = Closed
   \<and> opReturning (Some (OpError ''down'')) 100000000
        (demoWorld\<lparr>clock := 900000000, cb := demoBreaker\<lparr>failureTimes := [800000000]\<rparr>\<rparr>)
      = Some (Some (OpError ''down''),
          demoWorld\<lparr>clock := 1000000000, cb := demoBreaker\<lparr>failureTimes := [800000000]\<rparr>\<rparr>)
   \<and> cb_Execute (opReturning (Some (OpError ''down'')) 100000000)
        (demoWorld\<lparr>clock := 900000000, cb := demoBreaker\<lparr>failureTimes := [800000000]\<rparr>\<rparr>)
      = Some (Some (OpError ''down''), trippedWorld)"
  using Execute_closed_failure
    [of "demoWorld\<lparr>clock := 900000000, cb := demoBreaker\<lparr>failureTimes := [800000000]\<rparr>\<rparr>"
        "opReturning (Some (OpError ''down'')) 100000000" "OpError ''down''"
        "demoWorld\<lparr>clock := 1000000000, cb := demoBreaker\<lparr>failureTimes := [800000000]\<rparr>\<rparr>"]
  by (simp add: opReturning_def demoWorld_def demoBreaker_def trippedWorld_def Let_def)

section \<open>Circuit breaker: the HalfOpen state\<close>

text \<open>
  Claim C3. A breaker is HalfOpen when \<^verbatim>\<open>Execute\<close> starts, \<open>trialDuration > 0\<close>, and
  the time since the trial started is more than \<open>trialDuration\<close>. Then \<^verbatim>\<open>Execute\<close>
  sets the state to Open (telling the listener, if there is one), arms the timer with
  \<open>timeout\<close> and returns \<^verbatim>\<open>ErrOpen\<close>. The operation is not called: the result is the
  same for every operation, and nothing else in the world changes.
\<close>

theorem Execute_trial_expired:
  assumes "state (cb w) = HalfOpen" and "0 < trialDuration (cb w)"
    and "trialDuration (cb w) < Since (trialStart (cb w)) w"
  shows "cb_Execute fn w = Some (Some ErrOpen,
     w\<lparr>cb := (cb w)\<lparr>state := Open\<rparr>,
       timers := timers w @ [(clock w, timeout (cb w))],
       notified := (if onStateChange (cb w) then notified w @ [Open] else notified w)\<rparr>)"
  using assms
  by (simp add: cb_Execute_def Let_def setState_eq startOpenTimer_def)

theorem Execute_trial_expired_witness:
  "state (cb (trialWorld\<lparr>clock := 5000000001\<rparr>)) = HalfOpen
   \<and> 0 < trialDuration (cb (trialWorld\<lparr>clock := 5000000001\<rparr>))
   \<and> trialDuration (cb (trialWorld\<lparr>clock := 5000000001\<rparr>))
       < Since (trialStart (cb (trialWorld\<lparr>clock := 5000000001\<rparr>)))
           (trialWorld\<lparr>clock := 5000000001\<rparr>)
   \<and> cb_Execute (\<lambda>w. None) (trialWorld\<lparr>clock := 5000000001\<rparr>)
      = Some (Some ErrOpen,
          demoWorld\<lparr>clock := 5000000001,
            cb := demoBreaker\<lparr>state := Open, trialStart := 3000000000\<rparr>,
            timers := [(1000000000, 2000000000), (5000000001, 2000000000)],
            notified := [Open, HalfOpen, Open]\<rparr>)"
  using Execute_trial_expired [of "trialWorld\<lparr>clock := 5000000001\<rparr>" "\<lambda>w. None"]
  by (simp add: trialWorld_eq demoWorld_def demoBreaker_def Since_def)

text \<open>
  The claim about a failing trial, as it is worded, has \<^verbatim>\<open>Execute\<close> append a timestamp
  to the failure record. The HalfOpen branch does not call \<^verbatim>\<open>recordFailure\<close>: after a
  failing trial on the sample breaker the record is as empty as before.
\<close>

theorem Execute_trial_failure_record_counterexample:
  "cb_Execute (opReturning (Some (OpError ''down'')) 1000) trialWorld
   = Some (Some (OpError ''down''),
       demoWorld\<lparr>clock := 3000001000,
         cb := demoBreaker\<lparr>failureTimes := [], trialCount := 1, trialStart := 3000000000,
                 state := Open\<rparr>,
         timers := [(1000000000, 2000000000), (3000001000, 2000000000)],
         notified := [Open, HalfOpen, Open]\<rparr>)
   \<and> failureTimes (cb trialWorld) = []
   \<and> [] \<noteq> failureTimes (cb trialWorld) @ [3000001000]"
  by (simp add: cb_Execute_def Let_def setState_eq startOpenTimer_def opReturning_def
      trialWorld_eq demoWorld_def demoBreaker_def Since_def wrap64_def)

text \<open>
  Claim C4, amended. A breaker is HalfOpen when \<^verbatim>\<open>Execute\<close> starts, within its trial
  window, and the operation returns the failure \<open>e\<close>, leaving the world \<open>w1\<close>. Then
  \<^verbatim>\<open>Execute\<close> returns \<open>e\<close> itself, counts the trial, sets the state to Open (telling
  the listener if the state was not Open already) and arms the timer with \<open>timeout\<close>,
  whatever \<open>trialRequests\<close> is. The failure record is left as it is: no timestamp is
  appended.
\<close>

theorem Execute_trial_failure:
  assumes "state (cb w) = HalfOpen"
    and "\<not> (0 < trialDuration (cb w) \<and> trialDuration (cb w) < Since (trialStart (cb w)) w)"
    and "fn w = Some (Some e, w1)"
  shows "cb_Execute fn w = Some (Some e,
     w1\<lparr>cb := (cb w1)\<lparr>trialCount := wrap64 (trialCount (cb w1) + 1), state := Open\<rparr>,
        timers := timers w1 @ [(clock w1, timeout (cb w1))],
        notified := (if onStateChange (cb w1) \<and> state (cb w1) \<noteq> Open
                     then notified w1 @ [Open] else notified w1)\<rparr>)"
  using assms
  by (auto simp add: cb_Execute_def Let_def setState_eq startOpenTimer_def)

theorem Execute_trial_failure_witness:
  "state (cb trialWorld) = HalfOpen
   \<and> \<not> (0 < trialDuration (cb trialWorld)
         \<and> trialDuration (cb trialWorld) < Since (trialStart (cb trialWorld)) trialWorld)
   \<and> opReturning (Some ErrFull) 1000 trialWorld
      = Some (Some ErrFull, trialWorld\<lparr>clock := 3000001000\<rparr>)
   \<and> cb_Execute (opReturning (Some ErrFull) 1000) trialWorld
      = Some (Some ErrFull,
          demoWorld\<lparr>clock := 3000001000,
            cb := demoBreaker\<lparr>trialCount := 1, trialStart := 3000000000, state := Open\<rparr>,
            timers := [(1000000000, 2000000000), (3000001000, 2000000000)],
            notified := [Open, HalfOpen, Open]\<rparr>)"
  using Execute_trial_failure
    [of trialWorld "opReturning (Some ErrFull) 1000" ErrFull "trialWorld\<lparr>clock := 3000001000\<rparr>"]
  by (simp add: opReturning_def trialWorld_eq demoWorld_def demoBreaker_def Since_def
      wrap64_def)

section \<open>Circuit breaker: successes\<close>

text \<open>
  Claim C5. The operation returns \<^verbatim>\<open>nil\<close>, leaving the world \<open>w1\<close>; then
  \<^verbatim>\<open>Execute\<close> returns \<^verbatim>\<open>nil\<close>. If the breaker was Closed when the call started, the
  failure record is cleared. If it was HalfOpen, within its trial window (so that the
  operation is run at all), the trial count is incremented (Go's
  \<^verbatim>\<open>++\<close> on an \<^verbatim>\<open>int\<close>); when \<open>trialRequests\<close> is 0 or the count has reached
  \<open>trialRequests\<close>, the state becomes Closed (the listener is told) and the failure record
  and the trial count are cleared; otherwise only the trial count changes.
\<close>

theorem Execute_success:
  assumes "fn w = Some (None, w1)"
  shows "(state (cb w) = Closed \<longrightarrow>
            cb_Execute fn w = Some (None, w1\<lparr>cb := (cb w1)\<lparr>failureTimes := [], trialCount := 0\<rparr>\<rparr>))
       \<and> (state (cb w) = HalfOpen
            \<and> \<not> (0 < trialDuration (cb w)
                  \<and> trialDuration (cb w) < Since (trialStart (cb w)) w) \<longrightarrow>
            cb_Execute fn w = Some (None,
              (let b = cb w1; n = wrap64 (trialCount b + 1)
               in if trialRequests b = 0 \<or> trialRequests b \<le> n
                  then w1\<lparr>cb := b\<lparr>failureTimes := [], trialCount := 0, state := Closed\<rparr>,
                          notified := (if onStateChange b \<and> state b \<noteq> Closed
                                       then notified w1 @ [Closed] else notified w1)\<rparr>
                  else w1\<lparr>cb := b\<lparr>trialCount := n\<rparr>\<rparr>)))"
proof (intro conjI impI)
  assume "state (cb w) = Closed"
  with assms show "cb_Execute fn w
      = Some (None, w1\<lparr>cb := (cb w1)\<lparr>failureTimes := [], trialCount := 0\<rparr>\<rparr>)"
    by (simp add: cb_Execute_def Let_def resetFailures_def)
next
  assume "state (cb w) = HalfOpen
            \<and> \<not> (0 < trialDuration (cb w)
                  \<and> trialDuration (cb w) < Since (trialStart (cb w)) w)"
  with assms show "cb_Execute fn w = Some (None,
              (let b = cb w1; n = wrap64 (trialCount b + 1)
               in if trialRequests b = 0 \<or> trialRequests b \<le> n
                  then w1\<lparr>cb := b\<lparr>failureTimes := [], trialCount := 0, state := Closed\<rparr>,
                          notified := (if onStateChange b \<and> state b \<noteq> Closed
                                       then notified w1 @ [Closed] else notified w1)\<rparr>
                  else w1\<lparr>cb := b\<lparr>trialCount := n\<rparr>\<rparr>))"
    by (auto simp add: cb_Execute_def Let_def setState_eq resetFailures_def)
qed

theorem Execute_success_witness:
  "cb_Execute (opReturning None 1000)
      (demoWorld\<lparr>clock := 900000000, cb := demoBreaker\<lparr>failureTimes := [800000000]\<rparr>\<rparr>)
     = Some (None, demoWorld\<lparr>clock := 900001000\<rparr>)
   \<and> cb_Execute (opReturning None 1000) trialWorld
     = Some (None, trialWorld\<lparr>clock := 3000001000, cb := (cb trialWorld)\<lparr>trialCount := 1\<rparr>\<rparr>)
   \<and> cb_Execute (opReturning None 1000)
        (trialWorld\<lparr>clock := 3000001000, cb := (cb trialWorld)\<lparr>trialCount := 1\<rparr>\<rparr>)
     = Some (None,
         demoWorld\<lparr>clock := 3000002000, cb := demoBreaker\<lparr>trialStart := 3000000000\<rparr>,
           timers := [(1000000000, 2000000000)], notified := [Open, HalfOpen, Closed]\<rparr>)"
  using
    Execute_success
      [of "opReturning None 1000"
          "demoWorld\<lparr>clock := 900000000, cb := demoBreaker\<lparr>failureTimes := [800000000]\<rparr>\<rparr>"
          "demoWorld\<lparr>clock := 900001000, cb := demoBreaker\<lparr>failureTimes := [800000000]\<rparr>\<rparr>"]
    Execute_success
      [of "opReturning None 1000" trialWorld "trialWorld\<lparr>clock := 3000001000\<rparr>"]
    Execute_success
      [of "opReturning None 1000"
          "trialWorld\<lparr>clock := 3000001000, cb := (cb trialWorld)\<lparr>trialCount := 1\<rparr>\<rparr>"
          "trialWorld\<lparr>clock := 3000002000, cb := (cb trialWorld)\<lparr>trialCount := 1\<rparr>\<rparr>"]
  by (simp add: opReturning_def trialWorld_eq demoWorld_def demoBreaker_def Since_def
      wrap64_def Let_def)

section \<open>Circuit breaker: the listener\<close>

text \<open>
  Claim C9. With a listener registered, \<^verbatim>\<open>setState\<close> calls it once, with the new state,
  when the state changes, and does nothing at all (no call, no change) when the breaker is
  already in the state asked for. Every assignment to the state in \<^verbatim>\<open>Execute\<close> and in
  the timer's callback goes through \<^verbatim>\<open>setState\<close>.
\<close>

theorem setState_listener:
  assumes "onStateChange (cb w)"
  shows "(state (cb w) \<noteq> s \<longrightarrow>
            setState s w = w\<lparr>cb := (cb w)\<lparr>state := s\<rparr>, notified := notified w @ [s]\<rparr>)
       \<and> (state (cb w) = s \<longrightarrow> setState s w = w)"
  using assms by (simp add: setState_def Let_def)

theorem setState_listener_witness:
  "onStateChange (cb demoWorld)
   \<and> setState Open demoWorld = demoWorld\<lparr>cb := demoBreaker\<lparr>state := Open\<rparr>, notified := [Open]\<rparr>
   \<and> setState Closed demoWorld = demoWorld"
  using setState_listener [of demoWorld Open] setState_listener [of demoWorld Closed]
  by (simp add: demoWorld_def demoBreaker_def)

section \<open>Bulkhead\<close>

text \<open>
  Claim C6. When the semaphore has room (fewer operations hold a slot than its capacity),
  \<^verbatim>\<open>Execute\<close> takes a slot, runs the operation once in the world with the slot taken,
  and, the operation having returned \<open>r\<close> (an error or \<^verbatim>\<open>nil\<close>) with a slot still held,
  gives one slot back and returns \<open>r\<close> itself. When the semaphore is full, \<^verbatim>\<open>Execute\<close>
  returns \<^verbatim>\<open>ErrFull\<close>, the operation is not called and the world is unchanged.
\<close>

theorem bh_Execute_contract:
  "(len (sem (bh w)) < cap (sem (bh w))
      \<and> fn (w\<lparr>bh := (bh w)\<lparr>sem := (sem (bh w))\<lparr>len := len (sem (bh w)) + 1\<rparr>\<rparr>\<rparr>) = Some (r, w1)
      \<and> 0 < len (sem (bh w1))
      \<longrightarrow> bh_Execute fn w
            = Some (r, w1\<lparr>bh := (bh w1)\<lparr>sem := (sem (bh w1))\<lparr>len := len (sem (bh w1)) - 1\<rparr>\<rparr>\<rparr>))
   \<and> (\<not> len (sem (bh w)) < cap (sem (bh w)) \<longrightarrow> bh_Execute fn w = Some (Some ErrFull, w))"
  by (simp add: bh_Execute_def Let_def)

theorem bh_Execute_contract_witness:
  "bh_Execute (opReturning (Some (OpError ''down'')) 1000) demoWorld
     = Some (Some (OpError ''down''), demoWorld\<lparr>clock := 1000\<rparr>)
   \<and> bh_Execute (opReturning None 1000) demoWorld = Some (None, demoWorld\<lparr>clock := 1000\<rparr>)
   \<and> bh_Execute (\<lambda>w. None) (demoWorld\<lparr>bh := \<lparr>sem = \<lparr>cap = 1, len = 1\<rparr>\<rparr>\<rparr>)
     = Some (Some ErrFull, demoWorld\<lparr>bh := \<lparr>sem = \<lparr>cap = 1, len = 1\<rparr>\<rparr>\<rparr>)"
  using
    bh_Execute_contract
      [of demoWorld "opReturning (Some (OpError ''down'')) 1000" "Some (OpError ''down'')"
          "demoWorld\<lparr>clock := 1000, bh := \<lparr>sem = \<lparr>cap = 1, len = 1\<rparr>\<rparr>\<rparr>"]
    bh_Execute_contract
      [of demoWorld "opReturning None 1000" None
          "demoWorld\<lparr>clock := 1000, bh := \<lparr>sem = \<lparr>cap = 1, len = 1\<rparr>\<rparr>\<rparr>"]
    bh_Execute_contract
      [of "demoWorld\<lparr>bh := \<lparr>sem = \<lparr>cap = 1, len = 1\<rparr>\<rparr>\<rparr>" "\<lambda>w. None"]
  by (simp add: opReturning_def demoWorld_def)

text \<open>
  Claim C10. A bulkhead built with \<^verbatim>\<open>Limit(0)\<close> has a semaphore of capacity 0, on which
  the send of the \<^verbatim>\<open>select\<close> can never proceed: every \<^verbatim>\<open>Execute\<close> returns
  \<^verbatim>\<open>ErrFull\<close>, the operation is not called and the world, the bulkhead with it, stays as
  it is for the next call.
\<close>

theorem zero_limit_always_full:
  assumes "Build (Limit 0 b0) = Some b" and "sem (bh w) = sem b"
  shows "bh_Execute fn w = Some (Some ErrFull, w)"
  using assms by (auto simp add: Build_def Limit_def bh_Execute_def Let_def)

theorem zero_limit_always_full_witness:
  "Build (Limit 0 NewBuilder) = Some \<lparr>sem = \<lparr>cap = 0, len = 0\<rparr>\<rparr>
   \<and> sem (bh (demoWorld\<lparr>bh := \<lparr>sem = \<lparr>cap = 0, len = 0\<rparr>\<rparr>\<rparr>)) = sem \<lparr>sem = \<lparr>cap = 0, len = 0\<rparr>\<rparr>
   \<and> bh_Execute (\<lambda>w. None) (demoWorld\<lparr>bh := \<lparr>sem = \<lparr>cap = 0, len = 0\<rparr>\<rparr>\<rparr>)
     = Some (Some ErrFull, demoWorld\<lparr>bh := \<lparr>sem = \<lparr>cap = 0, len = 0\<rparr>\<rparr>\<rparr>)"
  using zero_limit_always_full
    [of NewBuilder "\<lparr>sem = \<lparr>cap = 0, len = 0\<rparr>\<rparr>"
        "demoWorld\<lparr>bh := \<lparr>sem = \<lparr>cap = 0, len = 0\<rparr>\<rparr>\<rparr>" "\<lambda>w. None"]
  by (simp add: Build_def Limit_def NewBuilder_def demoWorld_def)

section \<open>Client\<close>

text \<open>
  Claim C7. With a breaker and a bulkhead, \<^verbatim>\<open>Client.execute\<close> is the breaker's
  \<^verbatim>\<open>Execute\<close> around the bulkhead's \<^verbatim>\<open>Execute\<close> around the operation. When the
  breaker is Open, the call returns \<^verbatim>\<open>ErrOpen\<close> and the whole world, the bulkhead's
  semaphore with it, is unchanged; when a HalfOpen breaker's trial window has run out, the
  call returns \<^verbatim>\<open>ErrOpen\<close> and the bulkhead is unchanged. When the breaker is Closed and
  the bulkhead is full, the call returns \<^verbatim>\<open>ErrFull\<close> and the breaker treats it as the
  failure of an operation: a timestamp is recorded and counted against \<open>maxFailures\<close>,
  and the breaker trips when the count is reached. In whatever state the breaker is, a
  full bulkhead is to it an operation that fails with \<^verbatim>\<open>ErrFull\<close> and does nothing
  else. With the breaker only, the call is the
  breaker's \<^verbatim>\<open>Execute\<close> of the operation; with the bulkhead only, the bulkhead's; with
  neither, the operation itself.
\<close>

theorem execute_composition:
  "(CB c \<and> BH c \<longrightarrow> execute c fn = cb_Execute (bh_Execute fn))
   \<and> (CB c \<and> BH c \<and> state (cb w) = Open \<longrightarrow> execute c fn w = Some (Some ErrOpen, w))
   \<and> (CB c \<and> BH c \<and> state (cb w) = HalfOpen \<and> 0 < trialDuration (cb w)
        \<and> trialDuration (cb w) < Since (trialStart (cb w)) w
      \<longrightarrow> (\<exists>w'. execute c fn w = Some (Some ErrOpen, w') \<and> bh w' = bh w))
   \<and> (CB c \<and> BH c \<and> state (cb w) = Closed \<and> \<not> len (sem (bh w)) < cap (sem (bh w))
      \<longrightarrow> execute c fn w = Some (Some ErrFull,
           (let b = cb w; now = clock w; ft = failureTimes b @ [now];
                kept = (if window b > 0 then dropWhile (\<lambda>t. t \<le> now - window b) ft else ft)
            in if maxFailures b \<le> int (length kept)
               then w\<lparr>cb := b\<lparr>failureTimes := [], trialCount := 0, state := Open\<rparr>,
                      timers := timers w @ [(now, timeout b)],
                      notified := (if onStateChange b \<and> state b \<noteq> Open
                                   then notified w @ [Open] else notified w)\<rparr>
               else w\<lparr>cb := b\<lparr>failureTimes := kept\<rparr>\<rparr>)))
   \<and> (CB c \<and> BH c \<and> \<not> len (sem (bh w)) < cap (sem (bh w))
      \<longrightarrow> execute c fn w = cb_Execute (\<lambda>v. Some (Some ErrFull, v)) w)
   \<and> (CB c \<and> \<not> BH c \<longrightarrow> execute c fn = cb_Execute fn)
   \<and> (\<not> CB c \<and> BH c \<longrightarrow> execute c fn = bh_Execute fn)
   \<and> (\<not> CB c \<and> \<not> BH c \<longrightarrow> execute c fn = fn)"
proof -
  have both: "CB c \<and> BH c \<longrightarrow> execute c fn = cb_Execute (bh_Execute fn)"
    by (simp add: execute_def)
  have opn: "CB c \<and> BH c \<and> state (cb w) = Open \<longrightarrow> execute c fn w = Some (Some ErrOpen, w)"
    by (simp add: execute_def cb_Execute_def)
  have expired: "CB c \<and> BH c \<and> state (cb w) = HalfOpen \<and> 0 < trialDuration (cb w)
        \<and> trialDuration (cb w) < Since (trialStart (cb w)) w
      \<longrightarrow> (\<exists>w'. execute c fn w = Some (Some ErrOpen, w') \<and> bh w' = bh w)"
    by (simp add: execute_def cb_Execute_def Let_def setState_eq startOpenTimer_def)
  have full: "CB c \<and> BH c \<and> state (cb w) = Closed \<and> \<not> len (sem (bh w)) < cap (sem (bh w))
      \<longrightarrow> execute c fn w = Some (Some ErrFull,
           (let b = cb w; now = clock w; ft = failureTimes b @ [now];
                kept = (if window b > 0 then dropWhile (\<lambda>t. t \<le> now - window b) ft else ft)
            in if maxFailures b \<le> int (length kept)
               then w\<lparr>cb := b\<lparr>failureTimes := [], trialCount := 0, state := Open\<rparr>,
                      timers := timers w @ [(now, timeout b)],
                      notified := (if onStateChange b \<and> state b \<noteq> Open
                                   then notified w @ [Open] else notified w)\<rparr>
               else w\<lparr>cb := b\<lparr>failureTimes := kept\<rparr>\<rparr>))"
  proof (intro impI, elim conjE)
    assume c: "CB c" "BH c" and s: "state (cb w) = Closed"
      and f: "\<not> len (sem (bh w)) < cap (sem (bh w))"
    from f have r: "bh_Execute fn w = Some (Some ErrFull, w)"
      by (simp add: bh_Execute_def Let_def)
    from closed_failure [of w "bh_Execute fn" ErrFull w, OF s r] c
    show "execute c fn w = Some (Some ErrFull,
           (let b = cb w; now = clock w; ft = failureTimes b @ [now];
                kept = (if window b > 0 then dropWhile (\<lambda>t. t \<le> now - window b) ft else ft)
            in if maxFailures b \<le> int (length kept)
               then w\<lparr>cb := b\<lparr>failureTimes := [], trialCount := 0, state := Open\<rparr>,
                      timers := timers w @ [(now, timeout b)],
                      notified := (if onStateChange b \<and> state b \<noteq> Open
                                   then notified w @ [Open] else notified w)\<rparr>
               else w\<lparr>cb := b\<lparr>failureTimes := kept\<rparr>\<rparr>))"
      by (simp add: execute_def)
  qed
  have ordinary: "CB c \<and> BH c \<and> \<not> len (sem (bh w)) < cap (sem (bh w))
      \<longrightarrow> execute c fn w = cb_Execute (\<lambda>v. Some (Some ErrFull, v)) w"
    by (simp add: execute_def cb_Execute_def bh_Execute_def Let_def)
  have one: "(CB c \<and> \<not> BH c \<longrightarrow> execute c fn = cb_Execute fn)
     \<and> (\<not> CB c \<and> BH c \<longrightarrow> execute c fn = bh_Execute fn)
     \<and> (\<not> CB c \<and> \<not> BH c \<longrightarrow> execute c fn = fn)"
    by (simp add: execute_def)
  from both opn expired full ordinary one show ?thesis by blast
qed

theorem execute_composition_witness:
  "execute demoClient (opReturning None 1000) = cb_Execute (bh_Execute (opReturning None 1000))
   \<and> execute demoClient (\<lambda>w. None) trippedWorld = Some (Some ErrOpen, trippedWorld)
   \<and> execute demoClient (\<lambda>w. None)
        (demoWorld\<lparr>clock := 1000000000, cb := demoBreaker\<lparr>failureTimes := [800000000]\<rparr>,
           bh := \<lparr>sem = \<lparr>cap = 1, len = 1\<rparr>\<rparr>\<rparr>)
      = Some (Some ErrFull, trippedWorld\<lparr>bh := \<lparr>sem = \<lparr>cap = 1, len = 1\<rparr>\<rparr>\<rparr>)
   \<and> execute \<lparr>CB = True, BH = False\<rparr> (opReturning None 1000)
      = cb_Execute (opReturning None 1000)
   \<and> execute \<lparr>CB = False, BH = True\<rparr> (opReturning None 1000)
      = bh_Execute (opReturning None 1000)
   \<and> execute \<lparr>CB = False, BH = False\<rparr> (opReturning None 1000) = opReturning None 1000"
proof -
  have both: "execute demoClient (opReturning None 1000)
      = cb_Execute (bh_Execute (opReturning None 1000))"
    using execute_composition [of demoClient "opReturning None 1000" demoWorld]
    by (simp add: demoClient_def)
  have opn: "execute demoClient (\<lambda>w. None) trippedWorld = Some (Some ErrOpen, trippedWorld)"
    using execute_composition
      [of demoClient "\<lambda>w. None" trippedWorld, THEN conjunct2, THEN conjunct1]
    by (simp add: demoClient_def trippedWorld_def demoWorld_def demoBreaker_def)
  have full: "execute demoClient (\<lambda>w. None)
        (demoWorld\<lparr>clock := 1000000000, cb := demoBreaker\<lparr>failureTimes := [800000000]\<rparr>,
           bh := \<lparr>sem = \<lparr>cap = 1, len = 1\<rparr>\<rparr>\<rparr>)
      = Some (Some ErrFull, trippedWorld\<lparr>bh := \<lparr>sem = \<lparr>cap = 1, len = 1\<rparr>\<rparr>\<rparr>)"
    using execute_composition
      [of demoClient "\<lambda>w. None"
          "demoWorld\<lparr>clock := 1000000000, cb := demoBreaker\<lparr>failureTimes := [800000000]\<rparr>,
             bh := \<lparr>sem = \<lparr>cap = 1, len = 1\<rparr>\<rparr>\<rparr>",
       THEN conjunct2, THEN conjunct2, THEN conjunct2, THEN conjunct1]
    by (simp add: demoClient_def trippedWorld_def demoWorld_def demoBreaker_def Let_def)
  have cbOnly: "execute \<lparr>CB = True, BH = False\<rparr> (opReturning None 1000)
      = cb_Execute (opReturning None 1000)"
    using execute_composition [of "\<lparr>CB = True, BH = False\<rparr>" "opReturning None 1000" demoWorld]
    by simp
  have bhOnly: "execute \<lparr>CB = False, BH = True\<rparr> (opReturning None 1000)
      = bh_Execute (opReturning None 1000)"
    using execute_composition [of "\<lparr>CB = False, BH = True\<rparr>" "opReturning None 1000" demoWorld]
    by simp
  have neither: "execute \<lparr>CB = False, BH = False\<rparr> (opReturning None 1000)
      = opReturning None 1000"
    using execute_composition [of "\<lparr>CB = False, BH = False\<rparr>" "opReturning None 1000" demoWorld]
    by simp
  from both opn full cbOnly bhOnly neither show ?thesis by blast
qed

text \<open>
  Claim C8. The closure the adapter hands to \<^verbatim>\<open>Client.execute\<close> runs the transport
  once and returns an error exactly when the transport returned one or the status code of
  the response is 500 or more; in every other case, a status in the 400s among them, it
  returns \<^verbatim>\<open>nil\<close>.
\<close>

theorem callFn_classifies:
  assumes "(if deadline \<noteq> None then DoDeadline w else Do w) = Some (err, w1)"
  shows "\<exists>r. callFn DoDeadline Do deadline w = Some (r, w1)
            \<and> (r \<noteq> None \<longleftrightarrow> err \<noteq> None \<or> 500 \<le> statusCode (resp w1))"
  using assms by (auto simp add: callFn_def StatusInternalServerError_def)

theorem callFn_classifies_witness:
  "callFn (\<lambda>w. None) (answering 503 1000) None demoWorld
     = Some (Some (ServerError 503), demoWorld\<lparr>clock := 1000, resp := \<lparr>statusCode = 503\<rparr>\<rparr>)
   \<and> callFn (\<lambda>w. None) (answering 404 1000) None demoWorld
     = Some (None, demoWorld\<lparr>clock := 1000, resp := \<lparr>statusCode = 404\<rparr>\<rparr>)
   \<and> callFn (opReturning (Some (OpError ''timeout'')) 1000) (\<lambda>w. None) (Some 1000) demoWorld
     = Some (Some (OpError ''timeout''), demoWorld\<lparr>clock := 1000\<rparr>)"
  using
    callFn_classifies
      [of None "\<lambda>w. None" demoWorld "answering 503 1000" None
          "demoWorld\<lparr>clock := 1000, resp := \<lparr>statusCode = 503\<rparr>\<rparr>"]
    callFn_classifies
      [of None "\<lambda>w. None" demoWorld "answering 404 1000" None
          "demoWorld\<lparr>clock := 1000, resp := \<lparr>statusCode = 404\<rparr>\<rparr>"]
    callFn_classifies
      [of "Some 1000" "opReturning (Some (OpError ''timeout'')) 1000" demoWorld "\<lambda>w. None"
          "Some (OpError ''timeout'')" "demoWorld\<lparr>clock := 1000\<rparr>"]
  by (simp add: callFn_def StatusInternalServerError_def answering_def opReturning_def
      demoWorld_def)

end
